theory Spec2Isabelle
  imports Main "HOL-Library.Sublist" "HOL-Library.AList"
begin

section \<open>Python string primitives used by \<open>main.py\<close>\<close>

text \<open>
  Text is modelled as \<open>string\<close>, one \<open>char\<close> per code point below 256. The source
  only compares, searches and slices text, so nothing depends on the encoding.
\<close>

text \<open>
  \<open>str.replace(old, new)\<close>: every occurrence of \<open>old\<close>, found from the left and
  not overlapping the previous one, is replaced by \<open>new\<close>; the text that was put in
  is not looked at again. For an empty \<open>old\<close> Python puts \<open>new\<close> before every
  character and at the end.
\<close>

function py_replace :: "string \<Rightarrow> string \<Rightarrow> string \<Rightarrow> string" where
  "py_replace old new [] = (if old = [] then new else [])"
| "py_replace old new (c # cs) =
     (if old = [] then new @ c # py_replace old new cs
      else if prefix old (c # cs)
        then new @ py_replace old new (drop (length old) (c # cs))
      else c # py_replace old new cs)"
  by pat_completeness auto
termination
  by (relation "measure (\<lambda>(old, new, text). length text)") auto

text \<open>
  \<open>str.isspace\<close> on one character: the white space that \<open>str.strip()\<close> and
  \<open>str.split()\<close> remove. Below 256 these are the code points 9 to 13, 28 to 32,
  133 and 160.
\<close>

definition py_isspace :: "char \<Rightarrow> bool" where
  "py_isspace c \<longleftrightarrow>
     c \<in> {CHR 0x09, CHR 0x0A, CHR 0x0B, CHR 0x0C, CHR 0x0D, CHR 0x1C, CHR 0x1D,
          CHR 0x1E, CHR 0x1F, CHR 0x20, CHR 0x85, CHR 0xA0}"

definition lstrip :: "string \<Rightarrow> string" where
  "lstrip s = dropWhile py_isspace s"

definition rstrip :: "string \<Rightarrow> string" where
  "rstrip s = rev (dropWhile py_isspace (rev s))"

definition strip :: "string \<Rightarrow> string" where
  "strip s = rstrip (lstrip s)"

text \<open>\<open>str.lower()\<close> on one character: A to Z, and the capital letters 192 to 222
  without the multiplication sign 215, move up by 32.\<close>

definition py_lower_char :: "char \<Rightarrow> char" where
  "py_lower_char c =
     (let n = (of_char c :: nat)
      in if (65 \<le> n \<and> n \<le> 90) \<or> (192 \<le> n \<and> n \<le> 222 \<and> n \<noteq> 215)
         then char_of (n + 32) else c)"

definition lower :: "string \<Rightarrow> string" where
  "lower s = map py_lower_char s"

definition startswith :: "string \<Rightarrow> string \<Rightarrow> bool" where
  "startswith s p \<longleftrightarrow> prefix p s"

definition endswith :: "string \<Rightarrow> string \<Rightarrow> bool" where
  "endswith s p \<longleftrightarrow> suffix p s"

text \<open>\<open>s.split(sep, 1)\<close> for a one-character \<open>sep\<close> that occurs in \<open>s\<close>: the text
  before the first \<open>sep\<close> and the text after it.\<close>

definition split_first :: "char \<Rightarrow> string \<Rightarrow> string \<times> string" where
  "split_first sep s = (takeWhile (\<lambda>c. c \<noteq> sep) s, tl (dropWhile (\<lambda>c. c \<noteq> sep) s))"

text \<open>\<open>s.split()\<close>: the maximal runs of characters that are not white space; \<open>cur\<close>
  holds the run being read, last character first.\<close>

fun split_ws_from :: "string \<Rightarrow> string \<Rightarrow> string list" where
  "split_ws_from cur [] = (if cur = [] then [] else [rev cur])"
| "split_ws_from cur (c # cs) =
     (if py_isspace c
      then (if cur = [] then split_ws_from [] cs else rev cur # split_ws_from [] cs)
      else split_ws_from (c # cur) cs)"

definition split_ws :: "string \<Rightarrow> string list" where
  "split_ws s = split_ws_from [] s"

text \<open>\<open>sep.join(xs)\<close>.\<close>

fun join :: "string \<Rightarrow> string list \<Rightarrow> string" where
  "join sep [] = []"
| "join sep [x] = x"
| "join sep (x # y # ys) = x @ sep @ join sep (y # ys)"

text \<open>
  Reading a file opened with \<open>open(name, 'r')\<close> line by line: Python first turns
  every \<open>\r\n\<close> and every lone \<open>\r\<close> into \<open>\n\<close>, then yields the lines, each with
  its \<open>\n\<close>; a last line without \<open>\n\<close> is yielded as it is.
\<close>

fun universal_newlines :: "string \<Rightarrow> string" where
  "universal_newlines [] = []"
| "universal_newlines (c # cs) =
     (if c = CHR 0x0D
      then CHR 0x0A # universal_newlines (if startswith cs [CHR 0x0A] then tl cs else cs)
      else c # universal_newlines cs)"

fun lines_from :: "string \<Rightarrow> string \<Rightarrow> string list" where
  "lines_from cur [] = (if cur = [] then [] else [rev cur])"
| "lines_from cur (c # cs) =
     (if c = CHR 0x0A then rev (c # cur) # lines_from [] cs else lines_from (c # cur) cs)"

definition file_lines :: "string \<Rightarrow> string list" where
  "file_lines content = lines_from [] (universal_newlines content)"

section \<open>Variable expansion\<close>

text \<open>
  \<open>self.variables\<close> is a Python \<open>dict\<close>: it is iterated in insertion order, and
  assigning to a key that is present keeps the key's position. It is an association
  list with distinct keys, written with \<open>AList.update\<close>.

  \<^verbatim>\<open>
  def expand_vars(self, text):
      for key, val in self.variables.items():
          text = text.replace(f"${key}", val)
          text = text.replace(f"${{{key}}}", val)
      return text
  \<close>
\<close>

fun expand_vars :: "(string \<times> string) list \<Rightarrow> string \<Rightarrow> string" where
  "expand_vars [] text = text"
| "expand_vars ((key, val) # vs) text =
     expand_vars vs
       (py_replace (''${'' @ key @ ''}'') val (py_replace (''$'' @ key) val text))"

section \<open>The build model and its errors\<close>

text \<open>
  Every \<open>raise BuildError(...)\<close> of the source is one constructor, named after the
  message it carries. \<open>KeyError\<close> is the exception that the subscript
  \<open>self.targets[current_target]\<close> raises for an absent key.
\<close>

datatype error =
    BuildfileNotFound
  | OrphanCommand nat
  | SyntaxError nat
  | CircularDependency string
  | NoRuleToMake string
  | CommandFailed string
  | KeyError string

record Target =
  deps :: "string list"
  commands :: "string list"
  doc :: string
  group :: string

text \<open>The fields that \<open>__init__\<close> creates and \<open>parse\<close> fills. Both dictionaries keep
  insertion order.\<close>

record BuildSystem =
  variables :: "(string \<times> string) list"
  targets :: "(string \<times> Target) list"
  first_target :: "string option"

definition init_BuildSystem :: BuildSystem where
  "init_BuildSystem = \<lparr>variables = [], targets = [], first_target = None\<rparr>"

definition is_target :: "BuildSystem \<Rightarrow> string \<Rightarrow> bool" where
  "is_target bs name \<longleftrightarrow> map_of (targets bs) name \<noteq> None"

section \<open>The grammar parser\<close>

text \<open>
  The local variables of \<open>parse\<close>, next to the object they fill.
\<close>

record parser_state =
  sys :: BuildSystem
  current_target :: "string option"
  current_group :: string
  pending_doc :: "string list"

definition init_parser_state :: parser_state where
  "init_parser_state =
     \<lparr>sys = init_BuildSystem, current_target = None,
      current_group = ''General'', pending_doc = []\<rparr>"

text \<open>
  \<open>if current_target:\<close> tests truth, and in Python both \<open>None\<close> and the empty
  string are false: a target with the empty name is never open.
\<close>

definition open_target :: "parser_state \<Rightarrow> string option" where
  "open_target ps =
     (case current_target ps of
        None \<Rightarrow> None
      | Some name \<Rightarrow> if name = [] then None else Some name)"

text \<open>\<open>self.targets[current_target]['commands'].append(stripped)\<close>.\<close>

definition append_command :: "string \<Rightarrow> string \<Rightarrow> BuildSystem \<Rightarrow> error + BuildSystem" where
  "append_command name cmd bs =
     (case map_of (targets bs) name of
        None \<Rightarrow> Inl (KeyError name)
      | Some t \<Rightarrow>
          Inr (bs\<lparr>targets :=
                 AList.update name (t\<lparr>commands := commands t @ [cmd]\<rparr>) (targets bs)\<rparr>))"

text \<open>One turn of the loop over the lines, in the order of the source's tests.\<close>

definition parse_line :: "nat \<Rightarrow> string \<Rightarrow> parser_state \<Rightarrow> error + parser_state" where
  "parse_line line_num line ps =
     (let stripped = strip line in
      if startswith (lower stripped) ''[group:'' \<and> endswith stripped '']''
        then Inr (ps\<lparr>current_group := strip (butlast (drop 7 stripped)),
                     current_target := None, pending_doc := []\<rparr>)
      else if stripped = []
        then (if open_target ps \<noteq> None then Inr ps else Inr (ps\<lparr>pending_doc := []\<rparr>))
      else if startswith stripped ''#''
        then (if open_target ps = None
              then Inr (ps\<lparr>pending_doc := pending_doc ps @ [strip (tl stripped)]\<rparr>)
              else Inr ps)
      else if startswith line '' '' \<or> startswith line [CHR 0x09]
        then (case open_target ps of
                None \<Rightarrow> Inl (OrphanCommand line_num)
              | Some name \<Rightarrow>
                  (case append_command name stripped (sys ps) of
                     Inl e \<Rightarrow> Inl e
                   | Inr bs \<Rightarrow> Inr (ps\<lparr>sys := bs, pending_doc := []\<rparr>)))
      else if CHR ''='' \<in> set stripped \<and> CHR '':'' \<notin> set stripped
        then (let (k, v) = split_first CHR ''='' stripped;
                  key = strip k;
                  val = strip v
              in Inr (ps\<lparr>sys := (sys ps)\<lparr>variables := AList.update key val (variables (sys ps))\<rparr>,
                          current_target := None, pending_doc := []\<rparr>))
      else if CHR '':'' \<in> set stripped
        then (let (n, d) = split_first CHR '':'' stripped;
                  target_name = strip n;
                  deps_str = strip d;
                  dependencies = split_ws deps_str;
                  doc_string = join '' '' (pending_doc ps);
                  bs = sys ps
              in Inr (ps\<lparr>sys := bs
                           \<lparr>targets :=
                              AList.update target_name
                                \<lparr>deps = dependencies, commands = [], doc = doc_string,
                                 group = current_group ps\<rparr> (targets bs),
                            first_target :=
                              (if first_target bs = None then Some target_name
                               else first_target bs)\<rparr>,
                          current_target := Some target_name, pending_doc := []\<rparr>))
      else Inl (SyntaxError line_num))"

text \<open>\<open>for line_num, line in enumerate(f, 1)\<close>: the first error ends the loop.\<close>

fun parse_lines :: "nat \<Rightarrow> string list \<Rightarrow> parser_state \<Rightarrow> error + parser_state" where
  "parse_lines line_num [] ps = Inr ps"
| "parse_lines line_num (line # rest) ps =
     (case parse_line line_num line ps of
        Inl e \<Rightarrow> Inl e
      | Inr ps' \<Rightarrow> parse_lines (Suc line_num) rest ps')"

text \<open>
  \<open>parse\<close> on a freshly made object. The argument is what is on disk under the
  buildfile's name: \<open>None\<close> when there is no such file, else its content.
\<close>

definition parse :: "string option \<Rightarrow> error + BuildSystem" where
  "parse buildfile =
     (case buildfile of
        None \<Rightarrow> Inl BuildfileNotFound
      | Some content \<Rightarrow>
          (case parse_lines 1 (file_lines content) init_parser_state of
             Inl e \<Rightarrow> Inl e
           | Inr ps \<Rightarrow> Inr (sys ps)))"

section \<open>The build executor\<close>

text \<open>
  What the executor asks of its environment. The type \<open>'w\<close> stands for everything
  outside the process (the file system included):
  \<^item> \<open>stat w path\<close> is \<open>None\<close> when \<open>os.path.exists(path)\<close> is false and else holds
    \<open>os.path.getmtime(path)\<close>; the source only compares modification times, so they
    are integers here;
  \<^item> \<open>shell cmd w\<close> is \<open>subprocess.run(cmd, shell=True)\<close>: the exit status and the
    world the command leaves behind.
\<close>

record 'w opsys =
  stat :: "'w \<Rightarrow> string \<Rightarrow> int option"
  shell :: "string \<Rightarrow> 'w \<Rightarrow> int \<times> 'w"

text \<open>The state that a build threads: the world, and the commands handed to the shell so
  far, each with its exit status.\<close>

record 'w run_state =
  world :: 'w
  executed :: "(string \<times> int) list"

definition path_exists :: "'w opsys \<Rightarrow> 'w \<Rightarrow> string \<Rightarrow> bool" where
  "path_exists os w path \<longleftrightarrow> stat os w path \<noteq> None"

text \<open>
  The loop of \<open>needs_rebuild\<close> over the dependencies, with its two early returns.
  \<open>getmtime\<close> is only called on a path that exists.
\<close>

fun newer_or_unknown :: "BuildSystem \<Rightarrow> 'w opsys \<Rightarrow> 'w \<Rightarrow> int \<Rightarrow> string list \<Rightarrow> bool" where
  "newer_or_unknown bs os w target_mtime [] = False"
| "newer_or_unknown bs os w target_mtime (dep # rest) =
     (if \<not> path_exists os w dep \<and> \<not> is_target bs dep \<and> \<not> path_exists os w dep then True
      else if path_exists os w dep \<and> the (stat os w dep) > target_mtime then True
      else newer_or_unknown bs os w target_mtime rest)"

definition needs_rebuild :: "BuildSystem \<Rightarrow> 'w opsys \<Rightarrow> 'w \<Rightarrow> string \<Rightarrow> string list \<Rightarrow> bool" where
  "needs_rebuild bs os w target ds =
     (case stat os w target of
        None \<Rightarrow> True
      | Some target_mtime \<Rightarrow> newer_or_unknown bs os w target_mtime ds)"

text \<open>
  The loop over a target's commands: each is expanded, run and recorded; the first
  non-zero exit status raises.
\<close>

fun run_commands ::
  "BuildSystem \<Rightarrow> 'w opsys \<Rightarrow> string list \<Rightarrow> 'w run_state \<Rightarrow> error option \<times> 'w run_state" where
  "run_commands bs os [] st = (None, st)"
| "run_commands bs os (cmd # rest) st =
     (let expanded_cmd = expand_vars (variables bs) cmd;
          (status, w') = shell os expanded_cmd (world st);
          st' = \<lparr>world = w', executed = executed st @ [(expanded_cmd, status)]\<rparr>
      in if status \<noteq> 0 then (Some (CommandFailed expanded_cmd), st')
         else run_commands bs os rest st')"

text \<open>
  \<open>build\<close> and its loop over the dependencies. The result is the exception that
  ended the call, if any, and the state at that moment. \<open>visited\<close> is a value here,
  so every call works on its own copy, as \<open>visited.copy()\<close> makes it in the source.
  Python's bound on the depth of recursion is not modelled.
\<close>

function build ::
    "BuildSystem \<Rightarrow> 'w opsys \<Rightarrow> string \<Rightarrow> string set \<Rightarrow> 'w run_state
      \<Rightarrow> error option \<times> 'w run_state"
  and build_deps ::
    "BuildSystem \<Rightarrow> 'w opsys \<Rightarrow> string list \<Rightarrow> string set \<Rightarrow> 'w run_state
      \<Rightarrow> error option \<times> 'w run_state" where
  "build bs os target_name visited st =
     (if target_name \<in> visited then (Some (CircularDependency target_name), st)
      else
        (case map_of (targets bs) target_name of
           None \<Rightarrow>
             (if \<not> path_exists os (world st) target_name
              then (Some (NoRuleToMake target_name), st)
              else (None, st))
         | Some target_info \<Rightarrow>
             (case build_deps bs os (deps target_info) (insert target_name visited) st of
                (Some e, st') \<Rightarrow> (Some e, st')
              | (None, st') \<Rightarrow>
                  (if needs_rebuild bs os (world st') target_name (deps target_info)
                   then run_commands bs os (commands target_info) st'
                   else (None, st')))))"
| "build_deps bs os [] visited st = (None, st)"
| "build_deps bs os (dep # rest) visited st =
     (case build bs os dep visited st of
        (Some e, st') \<Rightarrow> (Some e, st')
      | (None, st') \<Rightarrow> build_deps bs os rest visited st')"
  by pat_completeness auto
termination
proof (relation "inv_image (less_than <*lex*> less_than)
    (\<lambda>x. case x of
       Inl (bs, os, name, visited, st) \<Rightarrow> (card (fst ` set (targets bs) - visited), 0)
     | Inr (bs, os, ds, visited, st) \<Rightarrow> (card (fst ` set (targets bs) - visited), Suc (length ds)))",
    goal_cases)
  case 1
  show ?case by (intro wf_inv_image wf_lex_prod wf_less_than)
next
  case (2 bs os target_name visited st target_info)
  from 2(2) have "target_name \<in> fst ` set (targets bs)"
    by (metis map_of_SomeD fst_conv image_eqI)
  with 2(1) have
    "card (fst ` set (targets bs) - insert target_name visited)
       < card (fst ` set (targets bs) - visited)"
    by (intro psubset_card_mono) auto
  then show ?case by simp
next
  case 3
  show ?case by simp
next
  case 4
  show ?case by simp
qed

section \<open>The driver\<close>

text \<open>
  \<open>run\<close> without what it prints: a parse error ends the process before any build;
  \<open>--list\<close> builds nothing; the goals are the arguments that do not start with a
  dash, else the first target; the goals are built one after the other, each with a
  fresh \<open>visited\<close> set, and the first error ends the process.
\<close>

fun build_goals ::
  "BuildSystem \<Rightarrow> 'w opsys \<Rightarrow> string list \<Rightarrow> 'w run_state \<Rightarrow> error option \<times> 'w run_state" where
  "build_goals bs os [] st = (None, st)"
| "build_goals bs os (t # rest) st =
     (case build bs os t {} st of
        (Some e, st') \<Rightarrow> (Some e, st')
      | (None, st') \<Rightarrow> build_goals bs os rest st')"

definition run ::
  "string option \<Rightarrow> string list \<Rightarrow> 'w opsys \<Rightarrow> 'w run_state \<Rightarrow> error option \<times> 'w run_state" where
  "run buildfile argv os st =
     (case parse buildfile of
        Inl e \<Rightarrow> (Some e, st)
      | Inr bs \<Rightarrow>
          if ''--list'' \<in> set argv \<or> ''-l'' \<in> set argv then (None, st)
          else
            (let targets_to_build = filter (\<lambda>arg. \<not> startswith arg ''-'') (tl argv)
             in if targets_to_build = []
                then (case first_target bs of
                        None \<Rightarrow> (None, st)
                      | Some t \<Rightarrow> if t = [] then (None, st) else build_goals bs os [t] st)
                else build_goals bs os targets_to_build st))"

section \<open>A small environment for concrete runs\<close>

text \<open>
  A world that is a table from paths to modification times, and a shell that knows
  three things: \<open>false\<close> fails, \<open>touch path\<close> gives the path a time later than every
  time in the table, and every other command succeeds and changes nothing.
\<close>

definition table_shell :: "string \<Rightarrow> (string \<times> int) list \<Rightarrow> int \<times> (string \<times> int) list" where
  "table_shell cmd w =
     (if cmd = ''false'' then (1, w)
      else if startswith cmd ''touch ''
        then (0, AList.update (drop 6 cmd) (fold max (map snd w) 0 + 1) w)
      else (0, w))"

definition table_os :: "(string \<times> int) list opsys" where
  "table_os = \<lparr>stat = map_of, shell = table_shell\<rparr>"

definition make_target :: "string list \<Rightarrow> string list \<Rightarrow> Target" where
  "make_target ds cs = \<lparr>deps = ds, commands = cs, doc = [], group = ''General''\<rparr>"

text \<open>A target \<open>out: in lib\<close> with one command, and a target \<open>lib\<close> without any.\<close>

definition lib_bs :: BuildSystem where
  "lib_bs =
     \<lparr>variables = [],
      targets = [(''out'', make_target [''in'', ''lib''] [''touch out'']),
                 (''lib'', make_target [] [])],
      first_target = Some ''out''\<rparr>"

section \<open>Notions used to state the properties\<close>

text \<open>The dependency edges of a model, and those that end in a known target.\<close>

definition dep_edges :: "BuildSystem \<Rightarrow> (string \<times> string) set" where
  "dep_edges bs = {(x, y). \<exists>t. map_of (targets bs) x = Some t \<and> y \<in> set (deps t)}"

definition target_dep_rel :: "BuildSystem \<Rightarrow> (string \<times> string) set" where
  "target_dep_rel bs = {(x, y). (x, y) \<in> dep_edges bs \<and> is_target bs y}"

text \<open>A walk along dependency edges, and a walk that always takes the dependency listed
  first.\<close>

fun dep_walk :: "BuildSystem \<Rightarrow> string list \<Rightarrow> bool" where
  "dep_walk bs (x # y # ys) \<longleftrightarrow>
     (case map_of (targets bs) x of None \<Rightarrow> False | Some t \<Rightarrow> y \<in> set (deps t))
     \<and> dep_walk bs (y # ys)"
| "dep_walk bs [x] \<longleftrightarrow> True"
| "dep_walk bs [] \<longleftrightarrow> True"

fun first_dep_walk :: "BuildSystem \<Rightarrow> string list \<Rightarrow> bool" where
  "first_dep_walk bs (x # y # ys) \<longleftrightarrow>
     (case map_of (targets bs) x of
        None \<Rightarrow> False
      | Some t \<Rightarrow> (case deps t of [] \<Rightarrow> False | d # _ \<Rightarrow> d = y))
     \<and> first_dep_walk bs (y # ys)"
| "first_dep_walk bs [x] \<longleftrightarrow> True"
| "first_dep_walk bs [] \<longleftrightarrow> True"

text \<open>
  The names \<open>names\<close> are satisfied in a world: each exists, and each that is a target
  has all its dependencies among \<open>names\<close>, none of them newer than the target.
\<close>

definition satisfied :: "BuildSystem \<Rightarrow> 'w opsys \<Rightarrow> 'w \<Rightarrow> string list \<Rightarrow> bool" where
  "satisfied bs os w names \<longleftrightarrow>
     (\<forall>x \<in> set names.
        case stat os w x of
          None \<Rightarrow> False
        | Some mx \<Rightarrow>
            (case map_of (targets bs) x of
               None \<Rightarrow> True
             | Some t \<Rightarrow>
                 (\<forall>d \<in> set (deps t). d \<in> set names
                    \<and> (case stat os w d of None \<Rightarrow> False | Some md \<Rightarrow> md \<le> mx))))"

text \<open>
  A record of shell calls \<open>trace\<close> with the outcome \<open>res\<close> is what running the commands
  \<open>cmds\<close> in order up to the first failure leaves: the calls are the expansions of an
  initial stretch of \<open>cmds\<close>; without an error this stretch is all of \<open>cmds\<close> and every
  status is zero; with an error the last call alone has a non-zero status and the
  error is \<open>CommandFailed\<close> with that call's text.
\<close>

definition stopped_at_first_failure ::
  "BuildSystem \<Rightarrow> string list \<Rightarrow> (string \<times> int) list \<Rightarrow> error option \<Rightarrow> bool" where
  "stopped_at_first_failure bs cmds trace res \<longleftrightarrow>
     length trace \<le> length cmds
     \<and> map fst trace = map (expand_vars (variables bs)) (take (length trace) cmds)
     \<and> (case res of
          None \<Rightarrow> length trace = length cmds \<and> list_all (\<lambda>s. s = 0) (map snd trace)
        | Some e \<Rightarrow>
            trace \<noteq> [] \<and> e = CommandFailed (fst (last trace))
            \<and> list_all (\<lambda>s. s = 0) (butlast (map snd trace)) \<and> snd (last trace) \<noteq> 0)"

section \<open>Concrete build models\<close>

text \<open>\<open>a: b\<close> and \<open>b: a\<close>.\<close>

definition cycle_bs :: BuildSystem where
  "cycle_bs =
     \<lparr>variables = [],
      targets = [(''a'', make_target [''b''] [''touch a'']),
                 (''b'', make_target [''a''] [''touch b''])],
      first_target = Some ''a''\<rparr>"

text \<open>The same cycle, reached after a dependency \<open>c\<close> that has a command.\<close>

definition detour_bs :: BuildSystem where
  "detour_bs =
     \<lparr>variables = [],
      targets = [(''a'', make_target [''c'', ''b''] [''touch a'']),
                 (''b'', make_target [''a''] [''touch b'']),
                 (''c'', make_target [] [''touch c''])],
      first_target = Some ''a''\<rparr>"

text \<open>A diamond: \<open>a: b c\<close>, \<open>b: d\<close>, \<open>c: d\<close>, \<open>d:\<close>.\<close>

definition diamond_bs :: BuildSystem where
  "diamond_bs =
     \<lparr>variables = [],
      targets = [(''a'', make_target [''b'', ''c''] [''touch a'']),
                 (''b'', make_target [''d''] [''touch b'']),
                 (''c'', make_target [''d''] [''touch c'']),
                 (''d'', make_target [] [''touch d''])],
      first_target = Some ''a''\<rparr>"

text \<open>\<open>out: in\<close> with four commands, the third of which fails.\<close>

definition failing_bs :: BuildSystem where
  "failing_bs =
     \<lparr>variables = [(''X'', ''out'')],
      targets = [(''out'', make_target [''in'']
                   [''echo $X'', ''touch ${X}'', ''false'', ''echo no''])],
      first_target = Some ''out''\<rparr>"

section \<open>Staleness\<close>

lemma newer_or_unknown_iff:
  "newer_or_unknown bs os w tm ds \<longleftrightarrow>
     (\<exists>d \<in> set ds. (\<exists>m. stat os w d = Some m \<and> tm < m)
        \<or> (stat os w d = None \<and> \<not> is_target bs d))"
  by (induction ds) (auto simp: path_exists_def)

text \<open>
  C2. \<open>needs_rebuild\<close> answers true exactly when the target's file does not exist, or
  some dependency is an existing file whose modification time is strictly greater than
  the target's, or some dependency is neither an existing file nor a known target. So a
  dependency that is a known target without a file does not ask for a rebuild, and
  neither does a dependency as old as the target.
\<close>

theorem needs_rebuild_iff:
  "needs_rebuild bs os w target ds \<longleftrightarrow>
     stat os w target = None
     \<or> (\<exists>d \<in> set ds. \<exists>m tm. stat os w d = Some m \<and> stat os w target = Some tm \<and> tm < m)
     \<or> (\<exists>d \<in> set ds. stat os w d = None \<and> \<not> is_target bs d)"
  by (cases "stat os w target") (auto simp: needs_rebuild_def newer_or_unknown_iff)

theorem needs_rebuild_iff_witness:
  "\<not> needs_rebuild lib_bs table_os [(''in'', 5), (''out'', 5)] ''out'' [''in'', ''lib'']
   \<and> needs_rebuild lib_bs table_os [(''in'', 6), (''out'', 5)] ''out'' [''in'', ''lib'']
   \<and> needs_rebuild lib_bs table_os [(''in'', 5), (''out'', 5)] ''out'' [''in'', ''src'']
   \<and> needs_rebuild lib_bs table_os [(''in'', 5)] ''out'' [''in'']"
  using needs_rebuild_iff [of lib_bs table_os "[(''in'', 5), (''out'', 5)]" "''out''" "[''in'', ''lib'']"]
    needs_rebuild_iff [of lib_bs table_os "[(''in'', 6), (''out'', 5)]" "''out''" "[''in'', ''lib'']"]
    needs_rebuild_iff [of lib_bs table_os "[(''in'', 5), (''out'', 5)]" "''out''" "[''in'', ''src'']"]
    needs_rebuild_iff [of lib_bs table_os "[(''in'', 5)]" "''out''" "[''in'']"]
  by (simp add: lib_bs_def table_os_def is_target_def)

section \<open>Names without a rule\<close>

text \<open>
  C7. A top-level \<open>build\<close> of a name that is not a known target runs no command and
  changes nothing: it returns normally when a file of that name exists and raises
  \<open>NoRuleToMake\<close> with the name when none does.
\<close>

theorem build_plain_file:
  "\<not> is_target bs name \<Longrightarrow>
     build bs os name {} st =
       (if path_exists os (world st) name then (None, st) else (Some (NoRuleToMake name), st))"
  by (simp add: is_target_def)

theorem build_plain_file_witness:
  "\<not> is_target lib_bs ''in'' \<and> \<not> is_target lib_bs ''gone''
   \<and> build lib_bs table_os ''in'' {} \<lparr>world = [(''in'', 5)], executed = []\<rparr>
       = (None, \<lparr>world = [(''in'', 5)], executed = []\<rparr>)
   \<and> build lib_bs table_os ''gone'' {} \<lparr>world = [(''in'', 5)], executed = []\<rparr>
       = (Some (NoRuleToMake ''gone''), \<lparr>world = [(''in'', 5)], executed = []\<rparr>)"
proof -
  have a: "\<not> is_target lib_bs ''in''" and b: "\<not> is_target lib_bs ''gone''"
    by (simp_all add: is_target_def lib_bs_def)
  show ?thesis
    using a b build_plain_file [OF a, of table_os "\<lparr>world = [(''in'', 5)], executed = []\<rparr>"]
      build_plain_file [OF b, of table_os "\<lparr>world = [(''in'', 5)], executed = []\<rparr>"]
    by (simp add: path_exists_def table_os_def)
qed

end
